theory Spec2Isabelle
  imports Complex_Main "HOL-Library.Sublist"
begin

section \<open>Python values as \<open>json.load\<close> produces them\<close>

text \<open>
  \<open>json.load\<close> returns \<open>None\<close>, a bool, an int, a float, a str, a list or a dict.
  A dict is kept as an association list in insertion order, as Python keeps it. Floats
  are read as the real numbers they denote (NaN and the infinities are left out), and a
  \<open>char\<close> stands for one character of a Python string.
\<close>

datatype pyval =
    PNone
  | PBool bool
  | PInt int
  | PFloat real
  | PStr string
  | PList "pyval list"
  | PDict "(pyval \<times> pyval) list"

type_synonym pydict = "(pyval \<times> pyval) list"

datatype pyerror =
    ClusterConfigException string
  | NotEnoughArguments string
  | AttributeError
  | TypeError
  | ValueError
  | KeyError
  | LoadError
  | OtherException string

text \<open>Truthiness, as \<open>if x:\<close> and \<open>bool(x)\<close> test it.\<close>

fun py_truthy :: "pyval \<Rightarrow> bool" where
  "py_truthy PNone = False"
| "py_truthy (PBool b) = b"
| "py_truthy (PInt i) = (i \<noteq> 0)"
| "py_truthy (PFloat r) = (r \<noteq> 0)"
| "py_truthy (PStr s) = (s \<noteq> [])"
| "py_truthy (PList xs) = (xs \<noteq> [])"
| "py_truthy (PDict kvs) = (kvs \<noteq> [])"

text \<open>Lists and dicts are unhashable: using one as a dict key raises \<open>TypeError\<close>.\<close>

fun hashable :: "pyval \<Rightarrow> bool" where
  "hashable (PList xs) = False"
| "hashable (PDict kvs) = False"
| "hashable v = True"

text \<open>
  Equality of two hashable keys: \<open>True == 1 == 1.0\<close>, so the numeric kinds compare by
  value; \<open>None\<close> and strings are equal only to themselves.
\<close>

fun num_of :: "pyval \<Rightarrow> real option" where
  "num_of (PBool b) = Some (if b then 1 else 0)"
| "num_of (PInt i) = Some (of_int i)"
| "num_of (PFloat r) = Some r"
| "num_of v = None"

definition key_eq :: "pyval \<Rightarrow> pyval \<Rightarrow> bool" where
  "key_eq a b =
     (case (num_of a, num_of b) of
        (Some x, Some y) \<Rightarrow> x = y
      | (None, None) \<Rightarrow> a = b
      | _ \<Rightarrow> False)"

text \<open>\<open>d.get(k)\<close> without the default: the value stored under a key equal to \<open>k\<close>.\<close>

fun dict_get :: "pydict \<Rightarrow> pyval \<Rightarrow> pyval option" where
  "dict_get [] k = None"
| "dict_get ((k', v') # d) k = (if key_eq k' k then Some v' else dict_get d k)"

text \<open>
  \<open>d[k] = v\<close>: an equal key keeps its place (and its key object) and takes the new
  value, a new key goes to the end.
\<close>

fun dict_setitem :: "pydict \<Rightarrow> pyval \<Rightarrow> pyval \<Rightarrow> pydict" where
  "dict_setitem [] k v = [(k, v)]"
| "dict_setitem ((k', v') # d) k v =
     (if key_eq k' k then (k', v) # d else (k', v') # dict_setitem d k v)"

text \<open>
  One element of the sequence form of \<open>dict.update\<close>: it is iterated and must yield
  exactly two items, key and value. A scalar cannot be iterated (\<open>TypeError\<close>), a
  sequence of another length is a \<open>ValueError\<close>; iterating a dict yields its keys and
  iterating a string its characters.
\<close>

fun update_element :: "pyval \<Rightarrow> pyerror + (pyval \<times> pyval)" where
  "update_element (PList xs) =
     (case xs of [k, v] \<Rightarrow> Inr (k, v) | _ \<Rightarrow> Inl ValueError)"
| "update_element (PStr s) =
     (case s of [c, d] \<Rightarrow> Inr (PStr [c], PStr [d]) | _ \<Rightarrow> Inl ValueError)"
| "update_element (PDict kvs) =
     (case kvs of [(k1, v1), (k2, v2)] \<Rightarrow> Inr (k1, k2) | _ \<Rightarrow> Inl ValueError)"
| "update_element v = Inl TypeError"

fun update_from_seq :: "pydict \<Rightarrow> pyval list \<Rightarrow> pyerror + pydict" where
  "update_from_seq d [] = Inr d"
| "update_from_seq d (x # xs) =
     (case update_element x of
        Inl e \<Rightarrow> Inl e
      | Inr (k, v) \<Rightarrow>
          if hashable k then update_from_seq (dict_setitem d k v) xs else Inl TypeError)"

fun update_from_dict :: "pydict \<Rightarrow> pydict \<Rightarrow> pydict" where
  "update_from_dict d [] = d"
| "update_from_dict d ((k, v) # kvs) = update_from_dict (dict_setitem d k v) kvs"

text \<open>
  \<open>d.update(other)\<close>: a dict is merged key by key; a list or a string is read as a
  sequence of key/value pairs; anything else is not iterable.
\<close>

fun dict_update :: "pydict \<Rightarrow> pyval \<Rightarrow> pyerror + pydict" where
  "dict_update d (PDict kvs) = Inr (update_from_dict d kvs)"
| "dict_update d (PList xs) = update_from_seq d xs"
| "dict_update d (PStr s) = update_from_seq d (map (\<lambda>c. PStr [c]) s)"
| "dict_update d v = Inl TypeError"

text \<open>
  \<open>cluster_type\<close> is \<open>None\<close> (the default) or a string.
  \<open>cluster_type in c\<close>: a key test on a dict, an element test on a list, a substring
  test on a string (which refuses \<open>None\<close> on the left); a scalar is not a container.
\<close>

fun py_of_cluster_type :: "string option \<Rightarrow> pyval" where
  "py_of_cluster_type None = PNone"
| "py_of_cluster_type (Some s) = PStr s"

fun py_in :: "string option \<Rightarrow> pyval \<Rightarrow> pyerror + bool" where
  "py_in ct (PDict kvs) = Inr (dict_get kvs (py_of_cluster_type ct) \<noteq> None)"
| "py_in ct (PList xs) = Inr (py_of_cluster_type ct \<in> set xs)"
| "py_in None (PStr s) = Inl TypeError"
| "py_in (Some t) (PStr s) = Inr (sublist t s)"
| "py_in ct v = Inl TypeError"

text \<open>
  \<open>c[cluster_type]\<close>: a dict looks the key up; a list or a string accepts only integer
  indices; a scalar cannot be subscripted.
\<close>

fun py_getitem :: "pyval \<Rightarrow> string option \<Rightarrow> pyerror + pyval" where
  "py_getitem (PDict kvs) ct =
     (case dict_get kvs (py_of_cluster_type ct) of
        None \<Rightarrow> Inl KeyError
      | Some v \<Rightarrow> Inr v)"
| "py_getitem v ct = Inl TypeError"

section \<open>The file system\<close>

text \<open>
  A path either does not exist, or names something \<open>open\<close> and \<open>json.load\<close> turn into
  a value, or names something they raise on (a directory, an unreadable file, text
  that is not JSON); that exception is not a \<open>ClusterConfigException\<close>.
\<close>

datatype fsentry = JsonFile pyval | Unloadable

type_synonym filesystem = "string \<Rightarrow> fsentry option"

section \<open>common/clustermanager.py\<close>

text \<open>
  The body of \<open>read_job_cluster_config\<close> once the file is loaded. The
  \<open>ClusterConfigException\<close> of the inner \<open>else\<close> is constructed and dropped (there is
  no \<open>raise\<close> before it), so that branch falls through to \<open>cluster_config = base_config\<close>.
  \<open>base_config.update\<close> is looked up before its argument is evaluated.
\<close>

definition resolve_config :: "string \<Rightarrow> pyval \<Rightarrow> string option \<Rightarrow> pyerror + pyval" where
  "resolve_config path_to_config config cluster_type =
     (case config of
        PDict cfg \<Rightarrow>
          (let base_config =
                 (case dict_get cfg (PStr ''base_config'') of None \<Rightarrow> PNone | Some b \<Rightarrow> b)
           in if py_truthy base_config then
                (case dict_get cfg (PStr ''cluster_configs'') of
                   None \<Rightarrow> Inr base_config
                 | Some cluster_configs \<Rightarrow>
                     (case py_in cluster_type cluster_configs of
                        Inl e \<Rightarrow> Inl e
                      | Inr False \<Rightarrow> Inr base_config
                      | Inr True \<Rightarrow>
                          (case base_config of
                             PDict b \<Rightarrow>
                               (case py_getitem cluster_configs cluster_type of
                                  Inl e \<Rightarrow> Inl e
                                | Inr overlay \<Rightarrow>
                                    (case dict_update b overlay of
                                       Inl e \<Rightarrow> Inl e
                                     | Inr b' \<Rightarrow> Inr (PDict b')))
                           | _ \<Rightarrow> Inl AttributeError)))
              else Inl (ClusterConfigException
                         (''Base config section is not found in file '' @ path_to_config)))
      | _ \<Rightarrow> Inl AttributeError)"

definition read_job_cluster_config ::
  "filesystem \<Rightarrow> string \<Rightarrow> string option \<Rightarrow> pyerror + pyval" where
  "read_job_cluster_config fs path_to_config cluster_type =
     (case fs path_to_config of
        None \<Rightarrow>
          Inl (ClusterConfigException
                (''Cluster config by path '' @ path_to_config @ '' is not found''))
      | Some Unloadable \<Rightarrow> Inl LoadError
      | Some (JsonFile config) \<Rightarrow> resolve_config path_to_config config cluster_type)"

section \<open>Collaborators of the command line\<close>

text \<open>
  An execution result as \<open>NutterCLI\<close> reads it: \<open>exec_result.notebook_path\<close> and
  \<open>exec_result.notebook_result.exit_output\<close> (a string, or \<open>None\<close>).
\<close>

record notebook_result =
  exit_output :: "string option"

record exec_result =
  notebook_path :: string
  notebook_result :: notebook_result

text \<open>The keyword arguments of \<open>self._nutter.run_tests\<close>.\<close>

record run_tests_args =
  rts_pattern :: string
  rts_cluster_id :: pyval
  rts_cluster_conf :: pyval
  rts_timeout :: int
  rts_max_parallel_tests :: int
  rts_recursive :: bool
  rts_poll_wait_time :: int
  rts_notebook_params :: pyval

datatype provider = JUnit | Tags

text \<open>
  The report manager as \<open>NutterCLI\<close> uses it: the providers it was built with and the
  results added to it so far, each under its notebook path.
\<close>

record 'tr report_manager =
  providers :: "provider list"
  added :: "(string \<times> 'tr) list"

text \<open>
  What the process does that can be observed from outside, in order: calls into the test
  runner (\<open>RunTest\<close> carries the four positional arguments \<open>test_pattern\<close>,
  \<open>cluster_id\<close>, \<open>timeout\<close>, \<open>poll_wait_time\<close>), lines printed, the call of
  \<open>report_manager.write()\<close> with the manager it is made on, and the fatal log line.
\<close>

datatype 'tr event =
    RunTests run_tests_args
  | RunTest string pyval int int
  | EventsProcessorWait
  | Print string
  | WriteReports "'tr report_manager"
  | LogFatal pyerror

text \<open>
  The modules \<open>common.api\<close>, \<open>common.resultsview\<close>, \<open>cli.resultsvalidator\<close> and
  \<open>cli.reportsman\<close> are not part of the sources at hand; what \<open>NutterCLI\<close> calls in them
  is a parameter. \<open>'tr\<close> is the type of a parsed test-result payload. A call that can
  raise returns the exception on the left. \<open>report_write\<close> gives the file names that
  \<open>report_manager.write()\<close> yields for a manager; which files it writes for which
  results is left to it.
\<close>

record 'tr env =
  fs :: filesystem
  is_valid_test_name :: "string \<Rightarrow> bool"
  run_tests :: "run_tests_args \<Rightarrow> pyerror + exec_result list"
  run_test :: "string \<Rightarrow> pyval \<Rightarrow> int \<Rightarrow> int \<Rightarrow> pyerror + exec_result"
  events_processor_wait :: "pyerror option"
  results_view :: "exec_result list \<Rightarrow> string"
  to_testresults :: "string option \<Rightarrow> 'tr option"
  validate :: "exec_result list \<Rightarrow> pyerror option"
  JUNIT :: int
  TAGS :: int
  provider_name :: "provider \<Rightarrow> string"
  report_write :: "'tr report_manager \<Rightarrow> string list"

subsection \<open>The report manager\<close>

text \<open>
  Modelled from the spec: \<open>reportsman.get_report_writer_manager\<close> and the manager it
  returns (\<open>cli/reportsman.py\<close> is missing). The spec has the selected report kinds
  "combined as a bit-flag set": a kind is selected when its flag is set in \<open>writers\<close>,
  and the manager holds one provider per selected kind and no result yet.
\<close>

definition get_report_writer_manager :: "'tr env \<Rightarrow> int \<Rightarrow> 'tr report_manager" where
  "get_report_writer_manager env writers =
     \<lparr>providers =
        (if and writers (JUNIT env) \<noteq> 0 then [JUnit] else []) @
        (if and writers (TAGS env) \<noteq> 0 then [Tags] else []),
      added = []\<rparr>"

text \<open>Modelled from the spec: \<open>has_providers\<close> of the missing report manager.\<close>

definition has_providers :: "'tr report_manager \<Rightarrow> bool" where
  "has_providers m = (providers m \<noteq> [])"

text \<open>Modelled from the spec: \<open>providers_names\<close> of the missing report manager.\<close>

definition providers_names :: "'tr env \<Rightarrow> 'tr report_manager \<Rightarrow> string list" where
  "providers_names env m = map (provider_name env) (providers m)"

text \<open>Modelled from the spec: \<open>add_result\<close> of the missing report manager.\<close>

definition add_result :: "'tr report_manager \<Rightarrow> string \<Rightarrow> 'tr \<Rightarrow> 'tr report_manager" where
  "add_result m path t_result = m\<lparr>added := added m @ [(path, t_result)]\<rparr>"

section \<open>cli/nuttercli.py\<close>

text \<open>\<open>s.split(c)\<close> for a separator of one character.\<close>

fun py_split :: "char \<Rightarrow> string \<Rightarrow> string list" where
  "py_split c [] = [[]]"
| "py_split c (x # xs) =
     (if x = c then [] # py_split c xs
      else (case py_split c xs of
              [] \<Rightarrow> [[x]]
            | s # ss \<Rightarrow> (x # s) # ss))"

text \<open>
  \<open>_is_a_test_pattern\<close>. The code after the \<open>if\<close> calls \<open>logging.Fatal\<close>, which the
  \<open>logging\<close> module does not have.
\<close>

definition is_a_test_pattern :: "'tr env \<Rightarrow> string \<Rightarrow> pyerror + bool" where
  "is_a_test_pattern env pattern =
     (let segments = py_split CHR ''/'' pattern
      in if length segments > 0 then
           (let search_pattern = segments ! (length segments - 1)
            in if is_valid_test_name env search_pattern then Inr False else Inr True)
         else Inl AttributeError)"

text \<open>The local variable \<open>writers\<close> of \<open>_get_report_writer_manager\<close> at its \<open>return\<close>.\<close>

definition report_writers :: "'tr env \<Rightarrow> bool \<Rightarrow> bool \<Rightarrow> int" where
  "report_writers env junit_report tags_report =
     (let writers = 0;
          writers = (if junit_report then JUNIT env else writers);
          writers = (if tags_report then writers + TAGS env else writers)
      in writers)"

definition cli_get_report_writer_manager :: "'tr env \<Rightarrow> bool \<Rightarrow> bool \<Rightarrow> 'tr report_manager" where
  "cli_get_report_writer_manager env junit_report tags_report =
     get_report_writer_manager env (report_writers env junit_report tags_report)"

text \<open>
  The loop of \<open>_handle_reports\<close> over the results, with what has been printed so far
  and the report manager as the loop's state. The second line of the warning starts with
  a tab.
\<close>

fun report_loop ::
  "'tr env \<Rightarrow> 'tr event list \<times> 'tr report_manager \<Rightarrow> exec_result list \<Rightarrow>
   'tr event list \<times> 'tr report_manager" where
  "report_loop env (out, m) [] = (out, m)"
| "report_loop env (out, m) (exec_result # rest) =
     (case to_testresults env (exit_output (notebook_result exec_result)) of
        None \<Rightarrow>
          report_loop env
            (out @ [Print ''Warning:'',
                    Print (CHR 0x09 # ''The output of '' @ notebook_path exec_result
                             @ '' is missing or the format is invalid.'')], m)
            rest
      | Some t_result \<Rightarrow>
          report_loop env (out, add_result m (notebook_path exec_result) t_result) rest)"

definition handle_reports ::
  "'tr env \<Rightarrow> 'tr report_manager \<Rightarrow> exec_result list \<Rightarrow>
   'tr event list \<times> 'tr report_manager" where
  "handle_reports env report_manager exec_results =
     (if \<not> has_providers report_manager then ([], report_manager)
      else
        (let out = map (\<lambda>p. Print (''Writing '' @ p @ '' report.''))
                     (providers_names env report_manager);
             (out, m) = report_loop env (out, report_manager) exec_results
         in (out @ WriteReports m #
               map (\<lambda>file_name. Print (''File '' @ file_name @ '' written''))
                 (report_write env m),
             m)))"

text \<open>
  \<open>_handle_results\<close>: the results are displayed, the reports handled, and the
  validator's exception, if it raises one, leaves the method.
\<close>

definition handle_results ::
  "'tr env \<Rightarrow> exec_result list \<Rightarrow> bool \<Rightarrow> bool \<Rightarrow> 'tr event list \<times> (pyerror + unit)" where
  "handle_results env results junit_report tags_report =
     (let report_man = cli_get_report_writer_manager env junit_report tags_report;
          (out, m) = handle_reports env report_man results
      in (Print (results_view env results) # out,
          case validate env results of Some e \<Rightarrow> Inl e | None \<Rightarrow> Inr ()))"

text \<open>The arguments of \<open>NutterCLI.run\<close>; an absent one is \<open>None\<close>.\<close>

record run_args =
  test_pattern :: string
  cluster_id :: pyval
  timeout :: int
  junit_report :: bool
  tags_report :: bool
  max_parallel_tests :: int
  recursive :: bool
  poll_wait_time :: int
  notebook_params :: pyval
  cluster_conf_path :: "string option"
  cluster_type :: "string option"
  cluster_config :: pyval

definition path_given :: "string option \<Rightarrow> bool" where
  "path_given p = (case p of None \<Rightarrow> False | Some s \<Rightarrow> s \<noteq> [])"

text \<open>Lines 64 to 70 of \<open>run\<close>: the value of \<open>cluster_conf\<close>.\<close>

definition cluster_conf_of :: "'tr env \<Rightarrow> run_args \<Rightarrow> pyerror + pyval" where
  "cluster_conf_of env a =
     (if cluster_config a = PNone then
        (case cluster_conf_path a of
           None \<Rightarrow> Inr PNone
         | Some p \<Rightarrow>
             if p \<noteq> [] then read_job_cluster_config (fs env) p (cluster_type a)
             else Inr PNone)
      else Inr (cluster_config a))"

text \<open>The body of the \<open>try\<close> block of \<open>run\<close>: what it does, and the exception leaving it.\<close>

definition run_try :: "'tr env \<Rightarrow> run_args \<Rightarrow> 'tr event list \<times> (pyerror + unit)" where
  "run_try env a =
     (if \<not> path_given (cluster_conf_path a) \<and> \<not> py_truthy (cluster_id a)
         \<and> \<not> py_truthy (cluster_config a)
      then ([], Inl (NotEnoughArguments
                      ''cluster_conf_path or cluster_id or cluster_config must be provided''))
      else
        (case cluster_conf_of env a of
           Inl e \<Rightarrow> ([], Inl e)
         | Inr cluster_conf \<Rightarrow>
             (case is_a_test_pattern env (test_pattern a) of
                Inl e \<Rightarrow> ([], Inl e)
              | Inr True \<Rightarrow>
                  (let call = \<lparr>rts_pattern = test_pattern a,
                               rts_cluster_id = cluster_id a,
                               rts_cluster_conf = cluster_conf,
                               rts_timeout = timeout a,
                               rts_max_parallel_tests = max_parallel_tests a,
                               rts_recursive = recursive a,
                               rts_poll_wait_time = poll_wait_time a,
                               rts_notebook_params = notebook_params a\<rparr>
                   in case run_tests env call of
                        Inl e \<Rightarrow> ([RunTests call], Inl e)
                      | Inr results \<Rightarrow>
                          (case events_processor_wait env of
                             Some e \<Rightarrow> ([RunTests call, EventsProcessorWait], Inl e)
                           | None \<Rightarrow>
                               (let (out, r) = handle_results env results
                                                 (junit_report a) (tags_report a)
                                in ([RunTests call, EventsProcessorWait] @ out, r))))
              | Inr False \<Rightarrow>
                  (let call = RunTest (test_pattern a) (cluster_id a) (timeout a)
                                (poll_wait_time a)
                   in case run_test env (test_pattern a) (cluster_id a) (timeout a)
                             (poll_wait_time a) of
                        Inl e \<Rightarrow> ([call], Inl e)
                      | Inr result \<Rightarrow>
                          (let (out, r) = handle_results env [result]
                                            (junit_report a) (tags_report a)
                           in (call # out, r))))))"

text \<open>
  \<open>run\<close>: any exception of the body is logged as fatal and the process exits with
  status 1 (\<open>Some 1\<close>); otherwise \<open>run\<close> returns (\<open>None\<close>).
\<close>

definition run :: "'tr env \<Rightarrow> run_args \<Rightarrow> 'tr event list \<times> int option" where
  "run env a =
     (case run_try env a of
        (out, Inl error) \<Rightarrow> (out @ [LogFatal error], Some 1)
      | (out, Inr u) \<Rightarrow> (out, None))"

section \<open>Notions used in the statements\<close>

text \<open>
  A Python dict never holds two equal keys; \<open>json.load\<close> keeps the last value of a
  repeated key.
\<close>

fun distinct_keys :: "pydict \<Rightarrow> bool" where
  "distinct_keys [] = True"
| "distinct_keys ((k, v) # d) = (dict_get d k = None \<and> distinct_keys d)"

text \<open>
  The configuration file of the running example: base \<open>{"a": 1, "b": 2}\<close> and the
  overlay \<open>{"b": 3}\<close> for the cluster type \<open>gpu\<close>, stored as \<open>conf.json\<close>; beside it
  \<open>nobase.json\<close>, an object without \<open>base_config\<close>.
\<close>

definition example_config :: pyval where
  "example_config =
     PDict [(PStr ''base_config'', PDict [(PStr ''a'', PInt 1), (PStr ''b'', PInt 2)]),
            (PStr ''cluster_configs'', PDict [(PStr ''gpu'', PDict [(PStr ''b'', PInt 3)])])]"

definition example_fs :: filesystem where
  "example_fs =
     (\<lambda>p. if p = ''conf.json'' then Some (JsonFile example_config)
          else if p = ''nobase.json'' then Some (JsonFile (PDict [(PStr ''cluster_configs'', PDict [])]))
          else None)"

text \<open>The substring after the last \<open>/\<close> of a pattern (all of it when there is none).\<close>

definition after_last_slash :: "string \<Rightarrow> string" where
  "after_last_slash s = rev (takeWhile (\<lambda>c. c \<noteq> CHR ''/'') (rev s))"

text \<open>The calls that dispatch tests, and all calls into the test runner.\<close>

fun is_dispatch :: "'tr event \<Rightarrow> bool" where
  "is_dispatch (RunTests call) = True"
| "is_dispatch (RunTest p c t w) = True"
| "is_dispatch e = False"

fun is_runner_call :: "'tr event \<Rightarrow> bool" where
  "is_runner_call (RunTests call) = True"
| "is_runner_call (RunTest p c t w) = True"
| "is_runner_call EventsProcessorWait = True"
| "is_runner_call e = False"

text \<open>The printed lines that warn about the output of some notebook.\<close>

fun is_path_warning :: "'tr event \<Rightarrow> bool" where
  "is_path_warning (Print s) =
     (prefix (CHR 0x09 # ''The output of '') s
      \<and> suffix '' is missing or the format is invalid.'' s)"
| "is_path_warning e = False"

fun is_write :: "'tr event \<Rightarrow> bool" where
  "is_write (WriteReports m) = True"
| "is_write e = False"

text \<open>A result whose \<open>exit_output\<close> is missing or does not parse, and the parsed ones.\<close>

definition unparsable :: "'tr env \<Rightarrow> exec_result \<Rightarrow> bool" where
  "unparsable env r = (to_testresults env (exit_output (notebook_result r)) = None)"

definition parsed_results :: "'tr env \<Rightarrow> exec_result list \<Rightarrow> (string \<times> 'tr) list" where
  "parsed_results env rs =
     List.map_filter
       (\<lambda>r. map_option (Pair (notebook_path r))
              (to_testresults env (exit_output (notebook_result r)))) rs"

text \<open>At least one of the three cluster selectors is given.\<close>

definition selector_given :: "run_args \<Rightarrow> bool" where
  "selector_given a =
     (path_given (cluster_conf_path a) \<or> py_truthy (cluster_id a)
      \<or> py_truthy (cluster_config a))"

text \<open>
  A test runner for the examples: a name is a test when it starts with \<open>test_\<close>, every
  run yields the same results, a payload parses unless it is missing or empty, and the
  validator accepts everything.
\<close>

definition result_of :: "string \<Rightarrow> string option \<Rightarrow> exec_result" where
  "result_of path out = \<lparr>notebook_path = path, notebook_result = \<lparr>exit_output = out\<rparr>\<rparr>"

definition example_env :: "string env" where
  "example_env =
     \<lparr>fs = example_fs,
      is_valid_test_name = prefix ''test_'',
      run_tests = (\<lambda>call. Inr [result_of ''nb/test_a'' (Some ''ok'')]),
      run_test = (\<lambda>p c t w. Inr (result_of ''nb/test_a'' (Some ''ok''))),
      events_processor_wait = None,
      results_view = (\<lambda>rs. ''results''),
      to_testresults = (\<lambda>out. case out of None \<Rightarrow> None
                               | Some s \<Rightarrow> if s = [] then None else Some s),
      validate = (\<lambda>rs. None),
      JUNIT = 1,
      TAGS = 2,
      provider_name = (\<lambda>p. case p of JUnit \<Rightarrow> ''JUnit'' | Tags \<Rightarrow> ''Tags''),
      report_write =
        (\<lambda>m. map (\<lambda>p. case p of JUnit \<Rightarrow> ''junit.xml'' | Tags \<Rightarrow> ''tags.txt'')
               (providers m))\<rparr>"

definition example_args :: run_args where
  "example_args =
     \<lparr>test_pattern = ''nb/test_a'',
      cluster_id = PNone,
      timeout = 120,
      junit_report = False,
      tags_report = False,
      max_parallel_tests = 1,
      recursive = False,
      poll_wait_time = 5,
      notebook_params = PNone,
      cluster_conf_path = None,
      cluster_type = None,
      cluster_config = PNone\<rparr>"

section \<open>Dictionaries\<close>

lemma key_eq_refl: "key_eq a a"
  by (cases a) (simp_all add: key_eq_def)

lemma key_eq_sym: "key_eq a b \<Longrightarrow> key_eq b a"
  by (auto simp: key_eq_def split: option.splits)

lemma key_eq_trans: "key_eq a b \<Longrightarrow> key_eq b c \<Longrightarrow> key_eq a c"
  by (auto simp: key_eq_def split: option.splits)

lemma dict_get_cong: "key_eq k k' \<Longrightarrow> dict_get d k = dict_get d k'"
proof (induction d)
  case Nil
  then show ?case by simp
next
  case (Cons kv d)
  obtain a b where kv: "kv = (a, b)" by (cases kv)
  from Cons.prems have "key_eq a k = key_eq a k'"
    by (blast intro: key_eq_trans key_eq_sym)
  with Cons kv show ?case by simp
qed

lemma dict_get_setitem:
  "dict_get (dict_setitem d k v) q = (if key_eq k q then Some v else dict_get d q)"
proof (induction d)
  case Nil
  then show ?case by simp
next
  case (Cons kv d)
  obtain a b where kv: "kv = (a, b)" by (cases kv)
  show ?case
  proof (cases "key_eq a k")
    case True
    then have "key_eq a q = key_eq k q"
      by (blast intro: key_eq_trans key_eq_sym)
    with True kv show ?thesis by simp
  next
    case False
    then have "key_eq k q \<Longrightarrow> \<not> key_eq a q"
      by (blast intro: key_eq_trans key_eq_sym)
    with False kv Cons.IH show ?thesis by auto
  qed
qed

lemma setitem_keys:
  "map fst (dict_setitem d k v) = map fst d @ (if dict_get d k = None then [k] else [])"
  by (induction d) (auto split: if_splits)

lemma dict_get_None_keys:
  "dict_get d k = None \<Longrightarrow> q \<in> set (map fst d) \<Longrightarrow> \<not> key_eq q k"
proof (induction d)
  case Nil
  then show ?case by simp
next
  case (Cons kv d)
  obtain a b where kv: "kv = (a, b)" by (cases kv)
  from Cons.prems kv have na: "\<not> key_eq a k" and rest: "dict_get d k = None"
    by (simp_all split: if_splits)
  from Cons.prems(2) kv have "q = a \<or> q \<in> set (map fst d)" by auto
  then show ?case using na Cons.IH [OF rest] by blast
qed

text \<open>After \<open>d.update(kvs)\<close> a key has the value of \<open>kvs\<close> if \<open>kvs\<close> has it, else its old one.\<close>

lemma dict_get_update_from_dict:
  "distinct_keys kvs \<Longrightarrow>
   dict_get (update_from_dict d kvs) q =
     (case dict_get kvs q of Some v \<Rightarrow> Some v | None \<Rightarrow> dict_get d q)"
proof (induction kvs arbitrary: d)
  case Nil
  then show ?case by simp
next
  case (Cons kv kvs)
  obtain k v where kv: "kv = (k, v)" by (cases kv)
  from Cons.prems kv have fresh: "dict_get kvs k = None" and dk: "distinct_keys kvs"
    by simp_all
  show ?case
  proof (cases "key_eq k q")
    case True
    then have "dict_get kvs q = None" using fresh dict_get_cong by metis
    then show ?thesis using True kv Cons.IH [OF dk] by (simp add: dict_get_setitem)
  next
    case False
    then show ?thesis using kv Cons.IH [OF dk, of "dict_setitem d k v"]
      by (simp add: dict_get_setitem split: option.splits)
  qed
qed

text \<open>The old keys keep their order; the new ones follow in the order of \<open>kvs\<close>.\<close>

lemma update_from_dict_keys:
  "distinct_keys kvs \<Longrightarrow>
   map fst (update_from_dict d kvs) =
     map fst d @ filter (\<lambda>k. dict_get d k = None) (map fst kvs)"
proof (induction kvs arbitrary: d)
  case Nil
  then show ?case by simp
next
  case (Cons kv kvs)
  obtain k v where kv: "kv = (k, v)" by (cases kv)
  from Cons.prems kv have fresh: "dict_get kvs k = None" and dk: "distinct_keys kvs"
    by simp_all
  have same: "filter (\<lambda>q. dict_get (dict_setitem d k v) q = None) (map fst kvs) =
              filter (\<lambda>q. dict_get d q = None) (map fst kvs)"
  proof (rule filter_cong [OF refl])
    fix q assume "q \<in> set (map fst kvs)"
    with fresh have "\<not> key_eq q k" by (rule dict_get_None_keys)
    then have "\<not> key_eq k q" by (blast intro: key_eq_sym)
    then show "(dict_get (dict_setitem d k v) q = None) = (dict_get d q = None)"
      by (simp add: dict_get_setitem)
  qed
  show ?case using kv Cons.IH [OF dk, of "dict_setitem d k v"] same
    by (simp add: setitem_keys)
qed

section \<open>Classifying the test pattern\<close>

lemma length_py_split: "length (py_split c s) = Suc (count_list s c)"
  by (induction s) (auto split: list.splits)

lemma py_split_nonempty: "py_split c s \<noteq> []"
  using length_py_split [of c s] by auto

lemma py_split_no_sep: "c \<notin> set s \<Longrightarrow> py_split c s = [s]"
  by (induction s) auto

lemma last_py_split_append:
  "c \<notin> set b \<Longrightarrow> last (py_split c (a @ c # b)) = b"
proof (induction a)
  case Nil
  then show ?case by (simp add: py_split_no_sep)
next
  case (Cons x a)
  let ?rest = "py_split c (a @ c # b)"
  have "length ?rest = Suc (count_list (a @ c # b) c)" by (rule length_py_split)
  then have "length ?rest \<ge> 2" by simp
  then obtain s t ss where shape: "?rest = s # t # ss"
    by (cases ?rest; cases "tl ?rest") auto
  show ?case
  proof (cases "x = c")
    case True
    then show ?thesis using Cons shape by simp
  next
    case False
    then show ?thesis using Cons shape by simp
  qed
qed

lemma last_py_split: "last (py_split CHR ''/'' s) = after_last_slash s"
proof (cases "CHR ''/'' \<in> set s")
  case False
  then have "takeWhile (\<lambda>c. c \<noteq> CHR ''/'') (rev s) = rev s"
    by (intro takeWhile_eq_all_conv [THEN iffD2]) auto
  then have "after_last_slash s = s" by (simp only: after_last_slash_def rev_rev_ident)
  with False show ?thesis by (simp add: py_split_no_sep)
next
  case True
  then obtain a b where s: "s = a @ CHR ''/'' # b" and nb: "CHR ''/'' \<notin> set b"
    by (auto dest: split_list_last)
  have "takeWhile (\<lambda>c. c \<noteq> CHR ''/'') (rev b @ CHR ''/'' # rev a) = rev b"
    using nb by (intro takeWhile_tail [THEN trans]) auto
  then have "after_last_slash s = b" using s by (simp add: after_last_slash_def)
  with last_py_split_append [OF nb, of a] s show ?thesis by simp
qed

lemma is_a_test_pattern_eq:
  "is_a_test_pattern env pattern = Inr (\<not> is_valid_test_name env (after_last_slash pattern))"
proof -
  let ?segs = "py_split CHR ''/'' pattern"
  have ne: "?segs \<noteq> []" by (rule py_split_nonempty)
  then have "?segs ! (length ?segs - 1) = last ?segs" by (simp add: last_conv_nth)
  then show ?thesis using ne by (simp add: is_a_test_pattern_def Let_def last_py_split)
qed

section \<open>Report handling and the run\<close>

lemma report_loop_eq:
  "report_loop env (out, m) rs =
     (out @ concat (map (\<lambda>r. if unparsable env r
                              then [Print ''Warning:'',
                                    Print (CHR 0x09 # ''The output of '' @ notebook_path r
                                             @ '' is missing or the format is invalid.'')]
                              else []) rs),
      m\<lparr>added := added m @ parsed_results env rs\<rparr>)"
proof (induction rs arbitrary: out m)
  case Nil
  then show ?case by (simp add: parsed_results_def map_filter_simps)
next
  case (Cons r rs)
  show ?case
  proof (cases "to_testresults env (exit_output (notebook_result r))")
    case None
    then show ?thesis
      using Cons.IH by (simp add: unparsable_def parsed_results_def map_filter_simps)
  next
    case (Some t)
    then show ?thesis
      using Cons.IH by (simp add: unparsable_def parsed_results_def map_filter_simps add_result_def)
  qed
qed

lemma is_path_warning_line:
  "is_path_warning
     (Print (CHR 0x09 # ''The output of '' @ p @ '' is missing or the format is invalid.''))"
proof -
  have "suffix '' is missing or the format is invalid.''
          ((CHR 0x09 # ''The output of '' @ p) @ '' is missing or the format is invalid.'')"
    by (rule suffix_appendI) simp
  then show ?thesis by simp
qed

lemma not_warning_header: "\<not> is_path_warning (Print ''Warning:'')"
  by simp

lemma filter_loop_warnings_gen:
  assumes w: "\<And>r. is_path_warning (Print (w r) :: 'e event)"
  shows "filter is_path_warning
     (concat (map (\<lambda>r. if P r then [Print ''Warning:'', Print (w r)] else []) rs)) =
   map (\<lambda>r. Print (w r) :: 'e event) (filter P rs)"
  by (induction rs) (simp_all add: w not_warning_header del: is_path_warning.simps)

lemma filter_loop_warnings:
  "filter is_path_warning
     (concat (map (\<lambda>r. if unparsable env r
                        then [Print ''Warning:'',
                              Print (CHR 0x09 # ''The output of '' @ notebook_path r
                                       @ '' is missing or the format is invalid.'')]
                        else []) rs)) =
   map (\<lambda>r. Print (CHR 0x09 # ''The output of '' @ notebook_path r
                     @ '' is missing or the format is invalid.''))
     (filter (unparsable env) rs)"
  by (rule filter_loop_warnings_gen
        [where w = "\<lambda>r. CHR 0x09 # ''The output of '' @ notebook_path r
                          @ '' is missing or the format is invalid.''",
         OF is_path_warning_line])

lemma filter_loop_other:
  "filter is_write
     (concat (map (\<lambda>r. if unparsable env r
                        then [Print ''Warning:'',
                              Print (CHR 0x09 # ''The output of '' @ notebook_path r
                                       @ '' is missing or the format is invalid.'')]
                        else []) rs)) = []"
  "filter is_dispatch
     (concat (map (\<lambda>r. if unparsable env r
                        then [Print ''Warning:'',
                              Print (CHR 0x09 # ''The output of '' @ notebook_path r
                                       @ '' is missing or the format is invalid.'')]
                        else []) rs)) = []"
  "filter is_runner_call
     (concat (map (\<lambda>r. if unparsable env r
                        then [Print ''Warning:'',
                              Print (CHR 0x09 # ''The output of '' @ notebook_path r
                                       @ '' is missing or the format is invalid.'')]
                        else []) rs)) = []"
  by (induction rs) simp_all

lemma filter_written_lines:
  "filter is_path_warning (map (\<lambda>f. Print (''File '' @ f @ '' written'')) names) = []"
  "filter is_write (map (\<lambda>f. Print (''File '' @ f @ '' written'') :: 'a event) names) = []"
  "filter is_dispatch (map (\<lambda>f. Print (''File '' @ f @ '' written'') :: 'a event) names) = []"
  "filter is_runner_call (map (\<lambda>f. Print (''File '' @ f @ '' written'') :: 'a event) names) = []"
  by (induction names) simp_all

lemma filter_writing_lines:
  "filter is_path_warning (map (\<lambda>p. Print (''Writing '' @ p @ '' report.'')) ns) = []"
  "filter is_write (map (\<lambda>p. Print (''Writing '' @ p @ '' report.'')) ns) = []"
  "filter is_dispatch (map (\<lambda>p. Print (''Writing '' @ p @ '' report.'')) ns) = []"
  "filter is_runner_call (map (\<lambda>p. Print (''Writing '' @ p @ '' report.'')) ns) = []"
  by (induction ns) simp_all

lemma handle_reports_eq:
  "has_providers m \<Longrightarrow>
   handle_reports env m rs =
     (map (\<lambda>p. Print (''Writing '' @ p @ '' report.'')) (providers_names env m) @
      concat (map (\<lambda>r. if unparsable env r
                         then [Print ''Warning:'',
                               Print (CHR 0x09 # ''The output of '' @ notebook_path r
                                        @ '' is missing or the format is invalid.'')]
                         else []) rs) @
      WriteReports (m\<lparr>added := added m @ parsed_results env rs\<rparr>) #
      map (\<lambda>file_name. Print (''File '' @ file_name @ '' written''))
        (report_write env (m\<lparr>added := added m @ parsed_results env rs\<rparr>)),
      m\<lparr>added := added m @ parsed_results env rs\<rparr>)"
  by (simp add: handle_reports_def report_loop_eq)

lemma handle_reports_no_calls:
  "filter is_dispatch (fst (handle_reports env m rs)) = []"
  "filter is_runner_call (fst (handle_reports env m rs)) = []"
proof -
  show "filter is_dispatch (fst (handle_reports env m rs)) = []"
  proof (cases "has_providers m")
    case True
    show ?thesis
      unfolding handle_reports_eq [OF True] fst_conv filter_append filter.simps
        filter_writing_lines filter_loop_other filter_written_lines
      by simp
  next
    case False
    then show ?thesis by (simp add: handle_reports_def)
  qed
  show "filter is_runner_call (fst (handle_reports env m rs)) = []"
  proof (cases "has_providers m")
    case True
    show ?thesis
      unfolding handle_reports_eq [OF True] fst_conv filter_append filter.simps
        filter_writing_lines filter_loop_other filter_written_lines
      by simp
  next
    case False
    then show ?thesis by (simp add: handle_reports_def)
  qed
qed

lemma handle_results_no_calls:
  "filter is_dispatch (fst (handle_results env rs j t)) = []"
  "filter is_runner_call (fst (handle_results env rs j t)) = []"
  by (simp_all add: handle_results_def Let_def split_beta handle_reports_no_calls)

lemma run_try_single:
  assumes "selector_given a" and "cluster_conf_of env a = Inr conf"
    and "is_valid_test_name env (after_last_slash (test_pattern a))"
  shows "run_try env a =
     (case run_test env (test_pattern a) (cluster_id a) (timeout a) (poll_wait_time a) of
        Inl e \<Rightarrow> ([RunTest (test_pattern a) (cluster_id a) (timeout a) (poll_wait_time a)], Inl e)
      | Inr result \<Rightarrow>
          (RunTest (test_pattern a) (cluster_id a) (timeout a) (poll_wait_time a)
             # fst (handle_results env [result] (junit_report a) (tags_report a)),
           snd (handle_results env [result] (junit_report a) (tags_report a))))"
  using assms
  by (simp add: run_try_def selector_given_def is_a_test_pattern_eq Let_def split_beta
      split: sum.splits)

lemma run_try_pattern:
  assumes "selector_given a" and "cluster_conf_of env a = Inr conf"
    and "\<not> is_valid_test_name env (after_last_slash (test_pattern a))"
    and "call = \<lparr>rts_pattern = test_pattern a, rts_cluster_id = cluster_id a,
                  rts_cluster_conf = conf, rts_timeout = timeout a,
                  rts_max_parallel_tests = max_parallel_tests a,
                  rts_recursive = recursive a, rts_poll_wait_time = poll_wait_time a,
                  rts_notebook_params = notebook_params a\<rparr>"
  shows "run_try env a =
     (case run_tests env call of
        Inl e \<Rightarrow> ([RunTests call], Inl e)
      | Inr results \<Rightarrow>
          (case events_processor_wait env of
             Some e \<Rightarrow> ([RunTests call, EventsProcessorWait], Inl e)
           | None \<Rightarrow>
               (RunTests call # EventsProcessorWait
                  # fst (handle_results env results (junit_report a) (tags_report a)),
                snd (handle_results env results (junit_report a) (tags_report a)))))"
  using assms
  by (simp add: run_try_def selector_given_def is_a_test_pattern_eq Let_def split_beta
      split: sum.splits option.splits)

lemma dispatches_run:
  "filter is_dispatch (fst (run env a)) = filter is_dispatch (fst (run_try env a))"
  by (simp add: run_def split: prod.splits sum.splits)

section \<open>Reading the cluster configuration\<close>

text \<open>
  C1 (as amended). For every config file whose JSON holds a non-empty \<open>base_config\<close>
  object and a \<open>cluster_configs\<close> object with an object under the requested cluster
  type, \<open>read_job_cluster_config\<close> returns the base config with the overlay's keys
  replacing the base's: every key has the overlay's value if the overlay has the key
  and the base's value otherwise, the base's keys keep their order and the overlay's
  new keys follow.
\<close>

theorem read_job_cluster_config_overlay:
  assumes "files path = Some (JsonFile (PDict cfg))"
    and "dict_get cfg (PStr ''base_config'') = Some (PDict base)" and "base \<noteq> []"
    and "dict_get cfg (PStr ''cluster_configs'') = Some (PDict ccs)"
    and "dict_get ccs (PStr t) = Some (PDict overlay)"
    and "distinct_keys overlay"
  shows "\<exists>merged. read_job_cluster_config files path (Some t) = Inr (PDict merged)
           \<and> (\<forall>k. dict_get merged k =
                  (case dict_get overlay k of Some v \<Rightarrow> Some v | None \<Rightarrow> dict_get base k))
           \<and> map fst merged =
               map fst base @ filter (\<lambda>k. dict_get base k = None) (map fst overlay)"
proof -
  have "read_job_cluster_config files path (Some t) = Inr (PDict (update_from_dict base overlay))"
    using assms by (simp add: read_job_cluster_config_def resolve_config_def)
  then show ?thesis
    using dict_get_update_from_dict [OF assms(6)] update_from_dict_keys [OF assms(6)]
    by blast
qed

text \<open>
  The example of the spec: base \<open>{"a": 1, "b": 2}\<close>, overlay \<open>{"b": 3}\<close> for \<open>gpu\<close>,
  result \<open>{"a": 1, "b": 3}\<close>.
\<close>

theorem read_job_cluster_config_overlay_witness:
  "read_job_cluster_config example_fs ''conf.json'' (Some ''gpu'') =
     Inr (PDict [(PStr ''a'', PInt 1), (PStr ''b'', PInt 3)])"
proof -
  have h1: "example_fs ''conf.json'' =
      Some (JsonFile (PDict [(PStr ''base_config'', PDict [(PStr ''a'', PInt 1), (PStr ''b'', PInt 2)]),
            (PStr ''cluster_configs'', PDict [(PStr ''gpu'', PDict [(PStr ''b'', PInt 3)])])]))"
    by (simp add: example_fs_def example_config_def)
  have h2: "dict_get [(PStr ''base_config'', PDict [(PStr ''a'', PInt 1), (PStr ''b'', PInt 2)]),
            (PStr ''cluster_configs'', PDict [(PStr ''gpu'', PDict [(PStr ''b'', PInt 3)])])]
            (PStr ''base_config'') = Some (PDict [(PStr ''a'', PInt 1), (PStr ''b'', PInt 2)])"
    by (simp add: key_eq_def)
  have h3: "[(PStr ''a'', PInt 1), (PStr ''b'', PInt 2)] \<noteq> []" by simp
  have h4: "dict_get [(PStr ''base_config'', PDict [(PStr ''a'', PInt 1), (PStr ''b'', PInt 2)]),
            (PStr ''cluster_configs'', PDict [(PStr ''gpu'', PDict [(PStr ''b'', PInt 3)])])]
            (PStr ''cluster_configs'') = Some (PDict [(PStr ''gpu'', PDict [(PStr ''b'', PInt 3)])])"
    by (simp add: key_eq_def)
  have h5: "dict_get [(PStr ''gpu'', PDict [(PStr ''b'', PInt 3)])] (PStr ''gpu'') =
            Some (PDict [(PStr ''b'', PInt 3)])"
    by (simp add: key_eq_def)
  have h6: "distinct_keys [(PStr ''b'', PInt 3)]" by simp
  from read_job_cluster_config_overlay
         [where files = example_fs and path = "''conf.json''", OF h1 h2 h3 h4 h5 h6]
  obtain merged
    where m: "read_job_cluster_config example_fs ''conf.json'' (Some ''gpu'') = Inr (PDict merged)"
    and g: "\<forall>k. dict_get merged k =
                  (case dict_get [(PStr ''b'', PInt 3)] k of Some v \<Rightarrow> Some v
                   | None \<Rightarrow> dict_get [(PStr ''a'', PInt 1), (PStr ''b'', PInt 2)] k)"
    and ks: "map fst merged = map fst [(PStr ''a'', PInt 1), (PStr ''b'', PInt 2)] @
        filter (\<lambda>k. dict_get [(PStr ''a'', PInt 1), (PStr ''b'', PInt 2)] k = None)
          (map fst [(PStr ''b'', PInt 3)])"
    by blast
  from ks have keys: "map fst merged = [PStr ''a'', PStr ''b'']" by (simp add: key_eq_def)
  then obtain va vb where shape: "merged = [(PStr ''a'', va), (PStr ''b'', vb)]"
    by (auto simp: map_eq_Cons_conv)
  from g [rule_format, of "PStr ''a''"] shape have "va = PInt 1" by (simp add: key_eq_def)
  moreover from g [rule_format, of "PStr ''b''"] shape have "vb = PInt 3" by (simp add: key_eq_def)
  ultimately show ?thesis using m shape by simp
qed

text \<open>
  C1 as stated fails where the \<open>base_config\<close> object is empty: \<open>if base_config:\<close> takes
  an empty dict for a missing one and raises.
\<close>

theorem read_job_cluster_config_empty_base_overlay:
  "read_job_cluster_config
     (\<lambda>p. Some (JsonFile (PDict [(PStr ''base_config'', PDict []),
                                  (PStr ''cluster_configs'',
                                   PDict [(PStr ''gpu'', PDict [(PStr ''b'', PInt 3)])])])))
     ''conf.json'' (Some ''gpu'') =
   Inl (ClusterConfigException ''Base config section is not found in file conf.json'')"
  by (simp add: read_job_cluster_config_def resolve_config_def key_eq_def)

text \<open>
  C2. A cluster type that is not a key of \<open>cluster_configs\<close> should raise
  \<open>ClusterConfigException\<close>. The code builds the exception without raising it: asked
  for \<open>cpu\<close>, the example file yields the base config, un-overlaid, and no error.
\<close>

theorem read_job_cluster_config_unknown_type:
  "read_job_cluster_config example_fs ''conf.json'' (Some ''cpu'') =
     Inr (PDict [(PStr ''a'', PInt 1), (PStr ''b'', PInt 2)])"
  by (simp add: read_job_cluster_config_def resolve_config_def key_eq_def
      example_fs_def example_config_def)

text \<open>
  C10 (as amended). For every existing config file whose JSON holds a non-empty
  \<open>base_config\<close> object and no \<open>cluster_configs\<close> key, \<open>read_job_cluster_config\<close>
  returns \<open>base_config\<close> unchanged for every \<open>cluster_type\<close>, \<open>None\<close> included, and
  does not raise.
\<close>

theorem read_job_cluster_config_no_cluster_configs:
  assumes "files path = Some (JsonFile (PDict cfg))"
    and "dict_get cfg (PStr ''base_config'') = Some (PDict base)" and "base \<noteq> []"
    and "dict_get cfg (PStr ''cluster_configs'') = None"
  shows "read_job_cluster_config files path ct = Inr (PDict base)"
  using assms by (simp add: read_job_cluster_config_def resolve_config_def)

theorem read_job_cluster_config_no_cluster_configs_witness:
  "read_job_cluster_config
     (\<lambda>p. Some (JsonFile (PDict [(PStr ''base_config'', PDict [(PStr ''a'', PInt 1)])])))
     ''conf.json'' None = Inr (PDict [(PStr ''a'', PInt 1)])
   \<and> read_job_cluster_config
     (\<lambda>p. Some (JsonFile (PDict [(PStr ''base_config'', PDict [(PStr ''a'', PInt 1)])])))
     ''conf.json'' (Some ''gpu'') = Inr (PDict [(PStr ''a'', PInt 1)])"
proof -
  let ?files = "\<lambda>p::string. Some (JsonFile (PDict [(PStr ''base_config'', PDict [(PStr ''a'', PInt 1)])]))"
  have h1: "?files ''conf.json'' =
      Some (JsonFile (PDict [(PStr ''base_config'', PDict [(PStr ''a'', PInt 1)])]))"
    by simp
  have h2: "dict_get [(PStr ''base_config'', PDict [(PStr ''a'', PInt 1)])] (PStr ''base_config'')
      = Some (PDict [(PStr ''a'', PInt 1)])"
    by (simp add: key_eq_def)
  have h3: "[(PStr ''a'', PInt 1)] \<noteq> []" by simp
  have h4: "dict_get [(PStr ''base_config'', PDict [(PStr ''a'', PInt 1)])] (PStr ''cluster_configs'')
      = None"
    by (simp add: key_eq_def)
  note inst = read_job_cluster_config_no_cluster_configs
               [where files = ?files and path = "''conf.json''", OF h1 h2 h3 h4]
  from inst [of None] inst [of "Some ''gpu''"] show ?thesis by blast
qed

text \<open>
  C10 as stated fails where the \<open>base_config\<close> object is empty: the file
  \<open>{"base_config": {}}\<close> raises.
\<close>

theorem read_job_cluster_config_empty_base:
  "read_job_cluster_config
     (\<lambda>p. Some (JsonFile (PDict [(PStr ''base_config'', PDict [])])))
     ''conf.json'' None =
   Inl (ClusterConfigException ''Base config section is not found in file conf.json'')"
  by (simp add: read_job_cluster_config_def resolve_config_def key_eq_def)
section \<open>The command line\<close>

text \<open>
  C3 (as amended). For every path that does not exist, and for every existing config
  file whose JSON is an object with no \<open>base_config\<close> key or with a falsy
  \<open>base_config\<close> value (\<open>null\<close>, \<open>false\<close>, \<open>0\<close>, \<open>""\<close>, \<open>[]\<close>, \<open>{}\<close>),
  \<open>read_job_cluster_config\<close> raises \<open>ClusterConfigException\<close>; in the run flow of the
  command line, where the file is read (no inline \<open>cluster_config\<close>, a non-empty
  \<open>cluster_conf_path\<close>), nothing is dispatched: the only thing the run does is log the
  exception, and the process exits with status 1.
\<close>

theorem missing_config_raises:
  assumes "fs env path = None
           \<or> (\<exists>cfg. fs env path = Some (JsonFile (PDict cfg))
                \<and> (dict_get cfg (PStr ''base_config'') = None
                   \<or> (\<exists>b. dict_get cfg (PStr ''base_config'') = Some b \<and> \<not> py_truthy b)))"
  shows "\<exists>msg. read_job_cluster_config (fs env) path ct = Inl (ClusterConfigException msg)
           \<and> (cluster_config a = PNone \<and> cluster_conf_path a = Some path \<and> path \<noteq> []
                \<and> cluster_type a = ct
              \<longrightarrow> run env a = ([LogFatal (ClusterConfigException msg)], Some 1))"
proof -
  from assms obtain msg
    where r: "read_job_cluster_config (fs env) path ct = Inl (ClusterConfigException msg)"
    by (auto simp: read_job_cluster_config_def resolve_config_def)
  have "run env a = ([LogFatal (ClusterConfigException msg)], Some 1)"
    if "cluster_config a = PNone" "cluster_conf_path a = Some path" "path \<noteq> []"
       "cluster_type a = ct"
    using that r
    by (simp add: run_def run_try_def cluster_conf_of_def path_given_def)
  with r show ?thesis by blast
qed

theorem missing_config_raises_witness:
  "read_job_cluster_config (fs example_env) ''nope.json'' (Some ''gpu'') =
     Inl (ClusterConfigException ''Cluster config by path nope.json is not found'')
   \<and> run example_env
         (example_args\<lparr>cluster_conf_path := Some ''nope.json'', cluster_type := Some ''gpu''\<rparr>) =
       ([LogFatal (ClusterConfigException ''Cluster config by path nope.json is not found'')],
        Some 1)
   \<and> read_job_cluster_config (fs example_env) ''nobase.json'' None =
     Inl (ClusterConfigException ''Base config section is not found in file nobase.json'')
   \<and> run example_env (example_args\<lparr>cluster_conf_path := Some ''nobase.json''\<rparr>) =
       ([LogFatal (ClusterConfigException ''Base config section is not found in file nobase.json'')],
        Some 1)"
proof -
  let ?a = "example_args\<lparr>cluster_conf_path := Some ''nope.json'', cluster_type := Some ''gpu''\<rparr>"
  let ?b = "example_args\<lparr>cluster_conf_path := Some ''nobase.json''\<rparr>"
  have h1: "fs example_env ''nope.json'' = None
           \<or> (\<exists>cfg. fs example_env ''nope.json'' = Some (JsonFile (PDict cfg))
                \<and> (dict_get cfg (PStr ''base_config'') = None
                   \<or> (\<exists>b. dict_get cfg (PStr ''base_config'') = Some b \<and> \<not> py_truthy b)))"
    by (simp add: example_env_def example_fs_def)
  have h2: "fs example_env ''nobase.json'' = None
           \<or> (\<exists>cfg. fs example_env ''nobase.json'' = Some (JsonFile (PDict cfg))
                \<and> (dict_get cfg (PStr ''base_config'') = None
                   \<or> (\<exists>b. dict_get cfg (PStr ''base_config'') = Some b \<and> \<not> py_truthy b)))"
    by (simp add: example_env_def example_fs_def key_eq_def)
  have a: "cluster_config ?a = PNone \<and> cluster_conf_path ?a = Some ''nope.json''
           \<and> ''nope.json'' \<noteq> [] \<and> cluster_type ?a = Some ''gpu''"
    by (simp add: example_args_def)
  have b: "cluster_config ?b = PNone \<and> cluster_conf_path ?b = Some ''nobase.json''
           \<and> ''nobase.json'' \<noteq> [] \<and> cluster_type ?b = None"
    by (simp add: example_args_def)
  from missing_config_raises [OF h1, of "Some ''gpu''" ?a] a
  obtain m1 where r1: "read_job_cluster_config (fs example_env) ''nope.json'' (Some ''gpu'') =
         Inl (ClusterConfigException m1)"
    and c1: "run example_env ?a = ([LogFatal (ClusterConfigException m1)], Some 1)"
    by blast
  from missing_config_raises [OF h2, of None ?b] b
  obtain m2 where r2: "read_job_cluster_config (fs example_env) ''nobase.json'' None =
         Inl (ClusterConfigException m2)"
    and c2: "run example_env ?b = ([LogFatal (ClusterConfigException m2)], Some 1)"
    by blast
  have "read_job_cluster_config (fs example_env) ''nope.json'' (Some ''gpu'') =
     Inl (ClusterConfigException ''Cluster config by path nope.json is not found'')"
    by (simp add: read_job_cluster_config_def example_env_def example_fs_def)
  with r1 have m1: "m1 = ''Cluster config by path nope.json is not found''" by simp
  have "read_job_cluster_config (fs example_env) ''nobase.json'' None =
     Inl (ClusterConfigException ''Base config section is not found in file nobase.json'')"
    by (simp add: read_job_cluster_config_def resolve_config_def example_env_def
        example_fs_def key_eq_def)
  with r2 have m2: "m2 = ''Base config section is not found in file nobase.json''" by simp
  from r1 c1 r2 c2 show ?thesis unfolding m1 m2 by blast
qed

text \<open>
  C3 as stated fails for a file whose JSON lacks a \<open>base_config\<close> object in another
  way: a truthy \<open>base_config\<close> that is no object is returned as the configuration, and
  a JSON document that is no object has no \<open>get\<close>, which is an \<open>AttributeError\<close>.
\<close>

theorem base_config_not_an_object:
  "read_job_cluster_config
     (\<lambda>p. Some (JsonFile (PDict [(PStr ''base_config'', PInt 1)]))) ''conf.json'' None =
   Inr (PInt 1)
   \<and> read_job_cluster_config (\<lambda>p. Some (JsonFile (PList []))) ''conf.json'' None =
   Inl AttributeError"
  by (simp add: read_job_cluster_config_def resolve_config_def key_eq_def)

text \<open>
  C4. When \<open>cluster_conf_path\<close>, \<open>cluster_id\<close> and \<open>cluster_config\<close> are all absent or
  falsy, \<open>run\<close> raises \<open>NotEnoughArguments\<close> before anything else happens: the run
  logs the error, dispatches nothing, and the process exits with status 1.
\<close>

theorem run_without_cluster_selector:
  assumes "\<not> path_given (cluster_conf_path a)" and "\<not> py_truthy (cluster_id a)"
    and "\<not> py_truthy (cluster_config a)"
  shows "run env a =
           ([LogFatal (NotEnoughArguments
               ''cluster_conf_path or cluster_id or cluster_config must be provided'')],
            Some 1)"
  using assms by (simp add: run_def run_try_def)

theorem run_without_cluster_selector_witness:
  "run example_env example_args =
     ([LogFatal (NotEnoughArguments
         ''cluster_conf_path or cluster_id or cluster_config must be provided'')],
      Some 1)
   \<and> run example_env
         (example_args\<lparr>cluster_id := PStr [], cluster_conf_path := Some [],
                        cluster_config := PDict []\<rparr>) =
     ([LogFatal (NotEnoughArguments
         ''cluster_conf_path or cluster_id or cluster_config must be provided'')],
      Some 1)"
proof -
  let ?b = "example_args\<lparr>cluster_id := PStr [], cluster_conf_path := Some [],
                          cluster_config := PDict []\<rparr>"
  have a1: "\<not> path_given (cluster_conf_path example_args)"
    and a2: "\<not> py_truthy (cluster_id example_args)"
    and a3: "\<not> py_truthy (cluster_config example_args)"
    by (simp_all add: example_args_def path_given_def)
  have b1: "\<not> path_given (cluster_conf_path ?b)"
    and b2: "\<not> py_truthy (cluster_id ?b)"
    and b3: "\<not> py_truthy (cluster_config ?b)"
    by (simp_all add: path_given_def)
  from run_without_cluster_selector [OF a1 a2 a3, of example_env]
       run_without_cluster_selector [OF b1 b2 b3, of example_env]
  show ?thesis by blast
qed

text \<open>
  C5. When neither \<open>junit_report\<close> nor \<open>tags_report\<close> is selected, report handling is
  a no-op for every batch of results: the selector is 0, the report manager has no
  providers, \<open>_handle_reports\<close> prints nothing, writes no file and leaves the manager
  without any result, and all \<open>_handle_results\<close> puts out is the results view.
\<close>

theorem no_report_selected:
  "report_writers env False False = 0
   \<and> \<not> has_providers (cli_get_report_writer_manager env False False)
   \<and> handle_reports env (cli_get_report_writer_manager env False False) rs =
       ([], cli_get_report_writer_manager env False False)
   \<and> added (snd (handle_reports env (cli_get_report_writer_manager env False False) rs)) = []
   \<and> fst (handle_results env rs False False) = [Print (results_view env rs)]"
  by (simp add: report_writers_def cli_get_report_writer_manager_def
      get_report_writer_manager_def has_providers_def handle_reports_def handle_results_def)

text \<open>
  C6. For every batch of results handed to \<open>_handle_reports\<close> with at least one
  provider selected, all that is put out is: a line per provider, then for every result
  whose \<open>exit_output\<close> is missing or does not parse the line \<open>Warning:\<close> and one line
  naming that result's notebook path, then the one call of \<open>write\<close>, made on the manager
  to which exactly the parseable results have been added, each under its notebook path
  and in order, then a line per file written. So an unparsable result is skipped, the
  warnings naming a path are exactly one per unparsable result, and every parseable
  result is added and is in the manager when the report is written.
\<close>

theorem handle_reports_skips_unparsable:
  assumes "has_providers m"
  shows "fst (handle_reports env m rs) =
           map (\<lambda>p. Print (''Writing '' @ p @ '' report.'')) (providers_names env m) @
           concat (map (\<lambda>r. if to_testresults env (exit_output (notebook_result r)) = None
                              then [Print ''Warning:'',
                                    Print (CHR 0x09 # ''The output of '' @ notebook_path r
                                             @ '' is missing or the format is invalid.'')]
                              else []) rs) @
           WriteReports (snd (handle_reports env m rs)) #
           map (\<lambda>file_name. Print (''File '' @ file_name @ '' written''))
             (report_write env (snd (handle_reports env m rs)))
       \<and> added (snd (handle_reports env m rs)) = added m @ parsed_results env rs
       \<and> providers (snd (handle_reports env m rs)) = providers m
       \<and> filter is_path_warning (fst (handle_reports env m rs)) =
           map (\<lambda>r. Print (CHR 0x09 # ''The output of '' @ notebook_path r
                             @ '' is missing or the format is invalid.''))
             (filter (\<lambda>r. to_testresults env (exit_output (notebook_result r)) = None) rs)
       \<and> filter is_write (fst (handle_reports env m rs)) =
           [WriteReports \<lparr>providers = providers m, added = added m @ parsed_results env rs\<rparr>]"
proof -
  note eq = handle_reports_eq [OF assms, of env rs]
  have u: "(\<lambda>r. to_testresults env (exit_output (notebook_result r)) = None) = unparsable env"
    by (simp add: unparsable_def fun_eq_iff)
  have t: "fst (handle_reports env m rs) =
           map (\<lambda>p. Print (''Writing '' @ p @ '' report.'')) (providers_names env m) @
           concat (map (\<lambda>r. if to_testresults env (exit_output (notebook_result r)) = None
                              then [Print ''Warning:'',
                                    Print (CHR 0x09 # ''The output of '' @ notebook_path r
                                             @ '' is missing or the format is invalid.'')]
                              else []) rs) @
           WriteReports (snd (handle_reports env m rs)) #
           map (\<lambda>file_name. Print (''File '' @ file_name @ '' written''))
             (report_write env (snd (handle_reports env m rs)))"
    unfolding eq fst_conv snd_conv unparsable_def by (rule refl)
  have a: "added (snd (handle_reports env m rs)) = added m @ parsed_results env rs"
    and p: "providers (snd (handle_reports env m rs)) = providers m"
    unfolding eq by simp_all
  have w: "filter is_path_warning (fst (handle_reports env m rs)) =
           map (\<lambda>r. Print (CHR 0x09 # ''The output of '' @ notebook_path r
                             @ '' is missing or the format is invalid.''))
             (filter (\<lambda>r. to_testresults env (exit_output (notebook_result r)) = None) rs)"
    unfolding u eq fst_conv filter_append filter.simps filter_writing_lines
      filter_loop_warnings filter_written_lines
    by simp
  have f: "filter is_write (fst (handle_reports env m rs)) =
           [WriteReports (m\<lparr>added := added m @ parsed_results env rs\<rparr>)]"
    unfolding eq fst_conv filter_append filter.simps filter_writing_lines filter_loop_other
      filter_written_lines
    by simp
  have "m\<lparr>added := added m @ parsed_results env rs\<rparr> =
        \<lparr>providers = providers m, added = added m @ parsed_results env rs\<rparr>"
    by simp
  with f have f': "filter is_write (fst (handle_reports env m rs)) =
           [WriteReports \<lparr>providers = providers m, added = added m @ parsed_results env rs\<rparr>]"
    by simp
  from t a p w f' show ?thesis by blast
qed

text \<open>
  Three results, the second without output, with both reports selected: the first and
  the third are added and are in the manager \<open>write\<close> is called on, and the one warning
  names \<open>n2\<close>.
\<close>

theorem handle_reports_skips_unparsable_witness:
  "has_providers (cli_get_report_writer_manager example_env True True)
   \<and> fst (handle_reports example_env (cli_get_report_writer_manager example_env True True)
        [result_of ''n1'' (Some ''x''), result_of ''n2'' None, result_of ''n3'' (Some ''y'')]) =
      [Print ''Writing JUnit report.'', Print ''Writing Tags report.'',
       Print ''Warning:'',
       Print (CHR 0x09 # ''The output of n2 is missing or the format is invalid.''),
       WriteReports \<lparr>providers = [JUnit, Tags], added = [(''n1'', ''x''), (''n3'', ''y'')]\<rparr>,
       Print ''File junit.xml written'', Print ''File tags.txt written'']
   \<and> added (snd (handle_reports example_env (cli_get_report_writer_manager example_env True True)
        [result_of ''n1'' (Some ''x''), result_of ''n2'' None, result_of ''n3'' (Some ''y'')])) =
      [(''n1'', ''x''), (''n3'', ''y'')]
   \<and> filter is_path_warning
        (fst (handle_reports example_env (cli_get_report_writer_manager example_env True True)
          [result_of ''n1'' (Some ''x''), result_of ''n2'' None, result_of ''n3'' (Some ''y'')])) =
      [Print (CHR 0x09 # ''The output of n2 is missing or the format is invalid.'')]
   \<and> filter is_write
        (fst (handle_reports example_env (cli_get_report_writer_manager example_env True True)
          [result_of ''n1'' (Some ''x''), result_of ''n2'' None, result_of ''n3'' (Some ''y'')])) =
      [WriteReports \<lparr>providers = [JUnit, Tags], added = [(''n1'', ''x''), (''n3'', ''y'')]\<rparr>]"
proof -
  let ?m = "cli_get_report_writer_manager example_env True True"
  let ?rs = "[result_of ''n1'' (Some ''x''), result_of ''n2'' None, result_of ''n3'' (Some ''y'')]"
  let ?h = "handle_reports example_env ?m ?rs"
  let ?m' = "\<lparr>providers = [JUnit, Tags], added = [(''n1'', ''x''), (''n3'', ''y'')]\<rparr>"
  have m: "?m = \<lparr>providers = [JUnit, Tags], added = []\<rparr>"
    by (simp add: cli_get_report_writer_manager_def get_report_writer_manager_def
        report_writers_def example_env_def)
  have h: "has_providers ?m" unfolding m by (simp add: has_providers_def)
  have pm: "providers ?m = [JUnit, Tags]" and am: "added ?m = []" unfolding m by simp_all
  have p: "parsed_results example_env ?rs = [(''n1'', ''x''), (''n3'', ''y'')]"
    by (simp add: parsed_results_def map_filter_simps result_of_def example_env_def)
  have names: "providers_names example_env ?m = [''JUnit'', ''Tags'']"
    unfolding m by (simp add: providers_names_def example_env_def)
  have loop: "concat (map (\<lambda>r. if to_testresults example_env (exit_output (notebook_result r)) = None
                              then [Print ''Warning:'',
                                    Print (CHR 0x09 # ''The output of '' @ notebook_path r
                                             @ '' is missing or the format is invalid.'')]
                              else []) ?rs) =
      [Print ''Warning:'',
       Print (CHR 0x09 # ''The output of n2 is missing or the format is invalid.'') :: string event]"
    by (simp add: result_of_def example_env_def)
  have un: "filter (\<lambda>r. to_testresults example_env (exit_output (notebook_result r)) = None) ?rs =
      [result_of ''n2'' None]"
    by (simp add: result_of_def example_env_def)
  have rw: "report_write example_env ?m' = [''junit.xml'', ''tags.txt'']"
    by (simp add: example_env_def)
  note inst = handle_reports_skips_unparsable [OF h, of example_env ?rs]
  from inst have a: "added (snd ?h) = [(''n1'', ''x''), (''n3'', ''y'')]"
    unfolding p am by simp
  from inst have pr: "providers (snd ?h) = [JUnit, Tags]"
    unfolding pm by simp
  from a pr have s: "snd ?h = ?m'"
    by (cases "snd ?h") simp
  from inst have "fst ?h =
           map (\<lambda>p. Print (''Writing '' @ p @ '' report.'')) [''JUnit'', ''Tags''] @
           [Print ''Warning:'',
            Print (CHR 0x09 # ''The output of n2 is missing or the format is invalid.'')] @
           WriteReports ?m' #
           map (\<lambda>file_name. Print (''File '' @ file_name @ '' written''))
             [''junit.xml'', ''tags.txt'']"
    unfolding s names loop rw by (rule conjunct1)
  then have t: "fst ?h =
      [Print ''Writing JUnit report.'', Print ''Writing Tags report.'',
       Print ''Warning:'',
       Print (CHR 0x09 # ''The output of n2 is missing or the format is invalid.''),
       WriteReports ?m',
       Print ''File junit.xml written'', Print ''File tags.txt written'']"
    by simp
  from inst have "filter is_path_warning (fst ?h) =
           map (\<lambda>r. Print (CHR 0x09 # ''The output of '' @ notebook_path r
                             @ '' is missing or the format is invalid.''))
             [result_of ''n2'' None]"
    unfolding un by blast
  then have w: "filter is_path_warning (fst ?h) =
      [Print (CHR 0x09 # ''The output of n2 is missing or the format is invalid.'')]"
    by (simp add: result_of_def)
  from inst have f: "filter is_write (fst ?h) = [WriteReports ?m']"
    unfolding p pm am by simp
  from h t a w f show ?thesis by blast
qed

text \<open>
  C7. The report-writer selector the command line computes from \<open>junit_report\<close> and
  \<open>tags_report\<close> is the sum of the selected flags: 0, \<open>JUNIT\<close>, \<open>TAGS\<close> and
  \<open>JUNIT + TAGS\<close>.
\<close>

theorem report_writers_flags:
  "report_writers env False False = 0
   \<and> report_writers env True False = JUNIT env
   \<and> report_writers env False True = TAGS env
   \<and> report_writers env True True = JUNIT env + TAGS env"
  by (simp add: report_writers_def)

text \<open>
  C8. For every \<open>test_pattern\<close> of a run that reaches the dispatch (a cluster selector is
  given and the cluster configuration resolves), \<open>run\<close> dispatches exactly once: to
  \<open>run_test\<close> when the substring after the last \<open>/\<close> is a valid test name, and to
  \<open>run_tests\<close> otherwise.
\<close>

theorem run_dispatch_by_test_name:
  assumes "selector_given a" and "cluster_conf_of env a = Inr conf"
  shows "filter is_dispatch (fst (run env a)) =
     (if is_valid_test_name env (after_last_slash (test_pattern a))
      then [RunTest (test_pattern a) (cluster_id a) (timeout a) (poll_wait_time a)]
      else [RunTests \<lparr>rts_pattern = test_pattern a, rts_cluster_id = cluster_id a,
                      rts_cluster_conf = conf, rts_timeout = timeout a,
                      rts_max_parallel_tests = max_parallel_tests a,
                      rts_recursive = recursive a, rts_poll_wait_time = poll_wait_time a,
                      rts_notebook_params = notebook_params a\<rparr>])"
proof (cases "is_valid_test_name env (after_last_slash (test_pattern a))")
  case True
  show ?thesis
    unfolding dispatches_run run_try_single [OF assms True]
    using True by (simp add: handle_results_no_calls split: sum.splits)
next
  case False
  show ?thesis
    unfolding dispatches_run run_try_pattern [OF assms False refl]
    using False by (simp add: handle_results_no_calls split: sum.splits option.splits)
qed

theorem run_dispatch_by_test_name_witness:
  "filter is_dispatch (fst (run example_env (example_args\<lparr>cluster_id := PStr ''c1''\<rparr>))) =
     [RunTest ''nb/test_a'' (PStr ''c1'') 120 5]
   \<and> filter is_dispatch
        (fst (run example_env
               (example_args\<lparr>cluster_id := PStr ''c1'', test_pattern := ''nb/test_a/''\<rparr>))) =
     [RunTests \<lparr>rts_pattern = ''nb/test_a/'', rts_cluster_id = PStr ''c1'',
                rts_cluster_conf = PNone, rts_timeout = 120, rts_max_parallel_tests = 1,
                rts_recursive = False, rts_poll_wait_time = 5,
                rts_notebook_params = PNone\<rparr>]"
proof -
  let ?a = "example_args\<lparr>cluster_id := PStr ''c1''\<rparr>"
  let ?b = "example_args\<lparr>cluster_id := PStr ''c1'', test_pattern := ''nb/test_a/''\<rparr>"
  have a1: "selector_given ?a" and b1: "selector_given ?b"
    by (simp_all add: selector_given_def)
  have a2: "cluster_conf_of example_env ?a = Inr PNone"
    and b2: "cluster_conf_of example_env ?b = Inr PNone"
    by (simp_all add: cluster_conf_of_def example_args_def)
  have va: "is_valid_test_name example_env (after_last_slash (test_pattern ?a))"
    by (simp add: example_env_def example_args_def after_last_slash_def)
  have vb: "\<not> is_valid_test_name example_env (after_last_slash (test_pattern ?b))"
    by (simp add: example_env_def after_last_slash_def)
  from run_dispatch_by_test_name [OF a1 a2] run_dispatch_by_test_name [OF b1 b2] va vb
  show ?thesis by (simp add: example_args_def)
qed

text \<open>
  What the two paths of \<open>run\<close> share. When a single-test run and a pattern run both
  reach the dispatch, the first gets a result from \<open>run_test\<close> and the second gets
  the singleton batch holding that result from \<open>run_tests\<close>, the two runs differ only
  in their calls into the test runner: what is displayed, reported and validated, and
  the exit status, are the same.
\<close>

theorem single_test_like_singleton_batch:
  assumes "selector_given a" and "cluster_conf_of env a = Inr conf"
    and "is_valid_test_name env (after_last_slash (test_pattern a))"
    and "run_test env (test_pattern a) (cluster_id a) (timeout a) (poll_wait_time a) = Inr result"
    and "selector_given b" and "cluster_conf_of env b = Inr conf'"
    and "\<not> is_valid_test_name env (after_last_slash (test_pattern b))"
    and "call = \<lparr>rts_pattern = test_pattern b, rts_cluster_id = cluster_id b,
                  rts_cluster_conf = conf', rts_timeout = timeout b,
                  rts_max_parallel_tests = max_parallel_tests b,
                  rts_recursive = recursive b, rts_poll_wait_time = poll_wait_time b,
                  rts_notebook_params = notebook_params b\<rparr>"
    and "run_tests env call = Inr [result]"
    and "events_processor_wait env = None"
    and "junit_report b = junit_report a" and "tags_report b = tags_report a"
  shows "\<exists>rest. fst (run env a) =
                  RunTest (test_pattern a) (cluster_id a) (timeout a) (poll_wait_time a) # rest
           \<and> fst (run env b) = RunTests call # EventsProcessorWait # rest
           \<and> filter is_runner_call rest = []
           \<and> snd (run env a) = snd (run env b)"
proof -
  let ?h = "handle_results env [result] (junit_report a) (tags_report a)"
  have ta: "run_try env a =
      (RunTest (test_pattern a) (cluster_id a) (timeout a) (poll_wait_time a) # fst ?h, snd ?h)"
    using run_try_single [OF assms(1,2,3)] assms(4) by simp
  have tb: "run_try env b = (RunTests call # EventsProcessorWait # fst ?h, snd ?h)"
    using run_try_pattern [OF assms(5,6,7,8)] assms(9,10,11,12) by simp
  show ?thesis
  proof (cases "snd ?h")
    case (Inl e)
    let ?rest = "fst ?h @ [LogFatal e]"
    have "fst (run env a) =
            RunTest (test_pattern a) (cluster_id a) (timeout a) (poll_wait_time a) # ?rest"
      and "fst (run env b) = RunTests call # EventsProcessorWait # ?rest"
      and "snd (run env a) = snd (run env b)"
      using ta tb Inl by (simp_all add: run_def)
    moreover have "filter is_runner_call ?rest = []"
      by (simp add: handle_results_no_calls)
    ultimately show ?thesis by blast
  next
    case (Inr u)
    let ?rest = "fst ?h"
    have "fst (run env a) =
            RunTest (test_pattern a) (cluster_id a) (timeout a) (poll_wait_time a) # ?rest"
      and "fst (run env b) = RunTests call # EventsProcessorWait # ?rest"
      and "snd (run env a) = snd (run env b)"
      using ta tb Inr by (simp_all add: run_def)
    moreover have "filter is_runner_call ?rest = []"
      by (simp add: handle_results_no_calls)
    ultimately show ?thesis by blast
  qed
qed

theorem single_test_like_singleton_batch_witness:
  "\<exists>rest.
      fst (run example_env (example_args\<lparr>cluster_id := PStr ''c1'', junit_report := True\<rparr>)) =
        RunTest ''nb/test_a'' (PStr ''c1'') 120 5 # rest
    \<and> fst (run example_env
             (example_args\<lparr>cluster_id := PStr ''c1'', junit_report := True,
                            test_pattern := ''nb/''\<rparr>)) =
        RunTests \<lparr>rts_pattern = ''nb/'', rts_cluster_id = PStr ''c1'',
                  rts_cluster_conf = PNone, rts_timeout = 120, rts_max_parallel_tests = 1,
                  rts_recursive = False, rts_poll_wait_time = 5,
                  rts_notebook_params = PNone\<rparr> # EventsProcessorWait # rest
    \<and> filter is_runner_call rest = []
    \<and> snd (run example_env (example_args\<lparr>cluster_id := PStr ''c1'', junit_report := True\<rparr>)) =
      snd (run example_env
             (example_args\<lparr>cluster_id := PStr ''c1'', junit_report := True,
                            test_pattern := ''nb/''\<rparr>))"
proof -
  let ?a = "example_args\<lparr>cluster_id := PStr ''c1'', junit_report := True\<rparr>"
  let ?b = "example_args\<lparr>cluster_id := PStr ''c1'', junit_report := True,
                          test_pattern := ''nb/''\<rparr>"
  let ?call = "\<lparr>rts_pattern = ''nb/'', rts_cluster_id = PStr ''c1'',
                 rts_cluster_conf = PNone, rts_timeout = 120, rts_max_parallel_tests = 1,
                 rts_recursive = False, rts_poll_wait_time = 5,
                 rts_notebook_params = PNone\<rparr>"
  have a1: "selector_given ?a" and b1: "selector_given ?b"
    by (simp_all add: selector_given_def)
  have a2: "cluster_conf_of example_env ?a = Inr PNone"
    and b2: "cluster_conf_of example_env ?b = Inr PNone"
    by (simp_all add: cluster_conf_of_def example_args_def)
  have va: "is_valid_test_name example_env (after_last_slash (test_pattern ?a))"
    by (simp add: example_env_def example_args_def after_last_slash_def)
  have vb: "\<not> is_valid_test_name example_env (after_last_slash (test_pattern ?b))"
    by (simp add: example_env_def after_last_slash_def)
  have ra: "run_test example_env (test_pattern ?a) (cluster_id ?a) (timeout ?a)
              (poll_wait_time ?a) = Inr (result_of ''nb/test_a'' (Some ''ok''))"
    by (simp add: example_env_def)
  have c: "?call = \<lparr>rts_pattern = test_pattern ?b, rts_cluster_id = cluster_id ?b,
                  rts_cluster_conf = PNone, rts_timeout = timeout ?b,
                  rts_max_parallel_tests = max_parallel_tests ?b,
                  rts_recursive = recursive ?b, rts_poll_wait_time = poll_wait_time ?b,
                  rts_notebook_params = notebook_params ?b\<rparr>"
    by (simp add: example_args_def)
  have rb: "run_tests example_env ?call = Inr [result_of ''nb/test_a'' (Some ''ok'')]"
    by (simp add: example_env_def)
  have w: "events_processor_wait example_env = None" by (simp add: example_env_def)
  have j: "junit_report ?b = junit_report ?a" and g: "tags_report ?b = tags_report ?a"
    by simp_all
  from single_test_like_singleton_batch [OF a1 a2 va ra b1 b2 vb c rb w j g]
  show ?thesis by (simp add: example_args_def)
qed

text \<open>
  C9. The single-test path of \<open>run\<close> should treat its test as the pattern path treats
  a batch of one: same cluster configuration, same \<open>notebook_params\<close>, same wait for
  the events. The code does not: with an inline cluster configuration and notebook
  parameters given, the \<open>run_test\<close> call carries neither and no
  \<open>events_processor_wait\<close> follows it, while for a pattern both reach \<open>run_tests\<close> and
  the wait follows.
\<close>

theorem single_test_drops_arguments:
  "filter is_runner_call
     (fst (run example_env
            (example_args\<lparr>cluster_config := PDict [(PStr ''k'', PInt 1)],
                           notebook_params := PDict [(PStr ''p'', PInt 2)]\<rparr>))) =
     [RunTest ''nb/test_a'' PNone 120 5]
   \<and> filter is_runner_call
     (fst (run example_env
            (example_args\<lparr>test_pattern := ''nb/'',
                           cluster_config := PDict [(PStr ''k'', PInt 1)],
                           notebook_params := PDict [(PStr ''p'', PInt 2)]\<rparr>))) =
     [RunTests \<lparr>rts_pattern = ''nb/'', rts_cluster_id = PNone,
                rts_cluster_conf = PDict [(PStr ''k'', PInt 1)], rts_timeout = 120,
                rts_max_parallel_tests = 1, rts_recursive = False, rts_poll_wait_time = 5,
                rts_notebook_params = PDict [(PStr ''p'', PInt 2)]\<rparr>,
      EventsProcessorWait]"
  by code_simp

end
